theory Spec2Isabelle
  imports Complex_Main
begin

unbundle bit_operations_syntax

section \<open>The webcam front end of AdaIN-TF (webcam.py)\<close>

text \<open>
  \<^verbatim>\<open>webcam.py\<close> holds the class \<^verbatim>\<open>StyleWindow\<close> (the style controls) and
  \<^verbatim>\<open>main\<close> (the capture, stylise, display loop). Everything else it calls lives
  outside the file: OpenCV, NumPy, SciPy, the helpers of \<^verbatim>\<open>utils\<close> and the network
  of \<^verbatim>\<open>inference\<close>. Those collaborators are parameters of the model (the record
  \<open>env\<close>); every theorem holds for all of them.

  Python floats are idealised as rationals: \<^verbatim>\<open>v / 100\<close> under
  \<^verbatim>\<open>from __future__ import division\<close> is the exact quotient.
\<close>

subsection \<open>Values\<close>

type_synonym path = string

text \<open>The exceptions the modelled code can raise, by their Python class.\<close>

datatype error =
    ValueError
  | IndexError
  | AttributeError
  | NameError
  | Cv2Error
  | EmptyCatalogError
  | ImageLoadError
  | InferenceError

text \<open>
  A NumPy image of shape \<^verbatim>\<open>(rows, cols, 3)\<close>. The pixel data is opaque (\<open>'p\<close>): the
  code never looks at it, it only hands it to library functions.
\<close>

record 'p image =
  rows :: nat
  cols :: nat
  pixels :: 'p

text \<open>
  A procedure either returns a value or raises; in both cases it leaves a state behind
  (an assignment made before the \<^verbatim>\<open>raise\<close> stays made).
\<close>

datatype ('a, 's) outcome = Return 'a 's | Raise error 's

fun state_of :: "('a, 's) outcome \<Rightarrow> 's" where
  "state_of (Return v s) = s"
| "state_of (Raise e s) = s"

fun returns :: "('a, 's) outcome \<Rightarrow> bool" where
  "returns (Return v s) = True"
| "returns (Raise e s) = False"

fun raised :: "('a, 's) outcome \<Rightarrow> error option" where
  "raised (Return v s) = None"
| "raised (Raise e s) = Some e"

text \<open>Sequencing: the second statement runs only if the first returned.\<close>

fun and_then :: "('a, 's) outcome \<Rightarrow> ('a \<Rightarrow> 's \<Rightarrow> ('b, 's) outcome) \<Rightarrow> ('b, 's) outcome" where
  "and_then (Return v s) f = f v s"
| "and_then (Raise e s) f = Raise e s"

text \<open>An expression that may raise, evaluated in state \<open>s\<close> without changing it.\<close>

fun of_result :: "error + 'a \<Rightarrow> 's \<Rightarrow> ('a, 's) outcome" where
  "of_result (Inl e) s = Raise e s"
| "of_result (Inr v) s = Return v s"

text \<open>Python's \<^verbatim>\<open>xs[i]\<close>: a negative index counts from the end, out of range raises.\<close>

definition py_getitem :: "'a list \<Rightarrow> int \<Rightarrow> error + 'a" where
  "py_getitem xs i =
     (let n = int (length xs); j = (if i < 0 then i + n else i)
      in if 0 \<le> j \<and> j < n then Inr (xs ! nat j) else Inl IndexError)"

text \<open>Python's \<^verbatim>\<open>xs[k] = v\<close> for a literal index \<open>k \<ge> 0\<close>.\<close>

definition py_setitem :: "'a list \<Rightarrow> nat \<Rightarrow> 'a \<Rightarrow> error + 'a list" where
  "py_setitem xs k v = (if k < length xs then Inr (xs[k := v]) else Inl IndexError)"

subsection \<open>The command line and the collaborators\<close>

text \<open>The parsed arguments (the module global \<^verbatim>\<open>args\<close>), as far as the code reads them.\<close>

record args =
  args_style_path :: path
  args_video_out :: "path option"
  args_fps :: int
  args_scale :: rat
  args_keep_colors :: bool
  args_style_size :: int
  args_alpha :: rat
  args_concat :: bool
  args_interpolate :: bool
  args_noise :: bool
  args_random :: int

text \<open>
  The functions \<^verbatim>\<open>webcam.py\<close> imports. \<open>'r\<close> is the state of NumPy's global random
  generator.

  \<^item> \<open>get_files\<close>, \<open>get_img_crop\<close>: \<^verbatim>\<open>utils.get_files\<close>, \<^verbatim>\<open>utils.get_img_crop\<close>.
  \<^item> \<open>predict\<close>, \<open>predict_interpolate\<close>: the methods of \<^verbatim>\<open>AdaINference\<close>. The style
    arguments are passed as the code passes them: an entry of \<^verbatim>\<open>style_rgbs\<close>, which
    is \<^verbatim>\<open>None\<close> until loaded, and the whole list.
  \<^item> \<open>draw\<close>: one raw draw of the generator. \<open>noise_pixels\<close>:
    \<^verbatim>\<open>np.random.randint(0, 256, shape, np.uint8)\<close>.
  \<^item> \<open>gaussian_pixels\<close>: \<^verbatim>\<open>scipy.ndimage.filters.gaussian_filter\<close> with the given sigma.
  \<^item> \<open>resample\<close>: the interpolation of \<^verbatim>\<open>cv2.resize\<close> to a width and a height.
  \<^item> \<open>swap_channels\<close>: \<^verbatim>\<open>cv2.cvtColor\<close> between BGR and RGB.
  \<^item> \<open>hstack_pixels\<close>: the data of \<^verbatim>\<open>np.hstack\<close> of two images.
\<close>

record ('p, 'r) env =
  get_files :: "path \<Rightarrow> error + path list"
  get_img_crop :: "path \<Rightarrow> int \<Rightarrow> int \<Rightarrow> error + 'p image"
  predict :: "'p image \<Rightarrow> 'p image option \<Rightarrow> rat \<Rightarrow> error + 'p image"
  predict_interpolate ::
    "'p image \<Rightarrow> 'p image option list \<Rightarrow> rat list \<Rightarrow> rat \<Rightarrow> error + 'p image"
  draw :: "'r \<Rightarrow> nat \<times> 'r"
  noise_pixels :: "'r \<Rightarrow> nat \<Rightarrow> nat \<Rightarrow> 'p \<times> 'r"
  gaussian_pixels :: "rat \<Rightarrow> 'p \<Rightarrow> 'p"
  resample :: "'p image \<Rightarrow> nat \<Rightarrow> nat \<Rightarrow> 'p"
  swap_channels :: "'p \<Rightarrow> 'p"
  hstack_pixels :: "'p image \<Rightarrow> 'p image \<Rightarrow> 'p"

subsection \<open>The program state\<close>

text \<open>The methods a trackbar can call back.\<close>

datatype callback = On_set_idx | On_set_alpha | On_set_size | On_set_crop_size
  | On_set_scale | On_set_interp

text \<open>\<^verbatim>\<open>cv2.createTrackbar(name, window, value, count, onChange)\<close>.\<close>

record trackbar =
  tb_name :: string
  tb_window :: string
  tb_value :: int
  tb_count :: int
  tb_onChange :: callback

text \<open>\<^verbatim>\<open>cv2.VideoWriter(filename, fourcc, fps, frameSize)\<close> and the frames written to it.\<close>

record 'p video_writer =
  filename :: path
  fps :: int
  frame_size :: "int \<times> int"
  written :: "'p image list"
  released :: bool

text \<open>
  One record for everything mutable: the attributes of the \<^verbatim>\<open>StyleWindow\<close> object
  (\<open>idx\<close> and \<open>interp_weight\<close> are \<open>None\<close> while the attribute does not exist), the
  global state its methods touch (NumPy's generator, HighGUI's windows, trackbars and
  the images shown, oldest first), and the local variables of \<^verbatim>\<open>main\<close>
  (\<open>out_shape\<close> and \<open>video_writer\<close> are \<open>None\<close> while unbound).
\<close>

record ('p, 'r) state =
  style_imgs :: "path list"
  style_rgbs :: "'p image option list"
  img_size :: int
  crop_size :: int
  scale :: rat
  alpha :: rat
  idx :: "int option"
  interp_weight :: "rat option"
  rng :: 'r
  windows :: "string list"
  trackbars :: "trackbar list"
  shown :: "(string \<times> 'p image) list"
  out_shape :: "(int \<times> int) option"
  video_writer :: "'p video_writer option"
  keep_colors :: bool
  count :: int

subsection \<open>Library calls\<close>

text \<open>
  \<^verbatim>\<open>np.random.randint(n)\<close>: a value of \<open>[0, n)\<close>, \<^verbatim>\<open>ValueError\<close> when the range is
  empty. Whatever the generator draws, the result is the draw reduced into the range.
\<close>

definition np_random_randint ::
  "('p, 'r) env \<Rightarrow> int \<Rightarrow> ('p, 'r) state \<Rightarrow> (int, ('p, 'r) state) outcome" where
  "np_random_randint env n st =
     (if n \<le> 0 then Raise ValueError st
      else (case draw env (rng st) of (x, r') \<Rightarrow> Return (int x mod n) (st\<lparr>rng := r'\<rparr>)))"

text \<open>OpenCV's \<^verbatim>\<open>cvRound\<close>: to the nearest integer, a tie to the even one.\<close>

definition cvRound :: "rat \<Rightarrow> int" where
  "cvRound x =
     (let f = \<lfloor>x\<rfloor>; d = x - of_int f
      in if d < 1 / 2 then f else if 1 / 2 < d then f + 1 else if even f then f else f + 1)"

text \<open>
  \<^verbatim>\<open>cv2.resize(img, (w, h))\<close>: the result has \<open>h\<close> rows and \<open>w\<close> columns; an empty
  source (also \<^verbatim>\<open>None\<close>) or an empty target size is an error.
\<close>

definition cv2_resize ::
  "('p, 'r) env \<Rightarrow> 'p image option \<Rightarrow> int \<times> int \<Rightarrow> error + 'p image" where
  "cv2_resize env src dsize =
     (case src of
        None \<Rightarrow> Inl Cv2Error
      | Some img \<Rightarrow>
          (case dsize of
             (w, h) \<Rightarrow>
               if rows img = 0 \<or> cols img = 0 \<or> w \<le> 0 \<or> h \<le> 0 then Inl Cv2Error
               else Inr \<lparr>rows = nat h, cols = nat w, pixels = resample env img (nat w) (nat h)\<rparr>))"

text \<open>
  \<^verbatim>\<open>cv2.resize(img, None, fx=fx, fy=fy)\<close>: the target size is
  \<open>(cvRound (fx * cols), cvRound (fy * rows))\<close>.
\<close>

definition cv2_resize_fx ::
  "('p, 'r) env \<Rightarrow> 'p image option \<Rightarrow> rat \<Rightarrow> rat \<Rightarrow> error + 'p image" where
  "cv2_resize_fx env src fx fy =
     (case src of
        None \<Rightarrow> Inl Cv2Error
      | Some img \<Rightarrow>
          if fx \<le> 0 \<or> fy \<le> 0 then Inl Cv2Error
          else cv2_resize env src
                 (cvRound (fx * of_nat (cols img)), cvRound (fy * of_nat (rows img))))"

text \<open>\<^verbatim>\<open>cv2.cvtColor\<close> with \<^verbatim>\<open>COLOR_BGR2RGB\<close> or \<^verbatim>\<open>COLOR_RGB2BGR\<close>: same shape.\<close>

definition cv2_cvtColor :: "('p, 'r) env \<Rightarrow> 'p image \<Rightarrow> error + 'p image" where
  "cv2_cvtColor env img =
     (if rows img = 0 \<or> cols img = 0 then Inl Cv2Error
      else Inr (img\<lparr>pixels := swap_channels env (pixels img)\<rparr>))"

text \<open>\<^verbatim>\<open>np.hstack([a, b])\<close>: side by side, for images of the same height.\<close>

definition np_hstack :: "('p, 'r) env \<Rightarrow> 'p image \<Rightarrow> 'p image \<Rightarrow> error + 'p image" where
  "np_hstack env a b =
     (if rows a \<noteq> rows b then Inl ValueError
      else Inr \<lparr>rows = rows a, cols = cols a + cols b, pixels = hstack_pixels env a b\<rparr>)"

text \<open>\<^verbatim>\<open>gaussian_filter(img, sigma=sigma)\<close>: same shape.\<close>

definition gaussian_filter :: "('p, 'r) env \<Rightarrow> 'p image \<Rightarrow> rat \<Rightarrow> 'p image" where
  "gaussian_filter env img sigma = img\<lparr>pixels := gaussian_pixels env sigma (pixels img)\<rparr>"

definition cv2_namedWindow :: "string \<Rightarrow> ('p, 'r) state \<Rightarrow> ('p, 'r) state" where
  "cv2_namedWindow name st = st\<lparr>windows := windows st @ [name]\<rparr>"

definition cv2_createTrackbar ::
  "string \<Rightarrow> string \<Rightarrow> int \<Rightarrow> int \<Rightarrow> callback \<Rightarrow> ('p, 'r) state \<Rightarrow> ('p, 'r) state" where
  "cv2_createTrackbar name window v n cb st =
     st\<lparr>trackbars := trackbars st @
        [\<lparr>tb_name = name, tb_window = window, tb_value = v, tb_count = n, tb_onChange = cb\<rparr>]\<rparr>"

definition cv2_imshow :: "string \<Rightarrow> 'p image \<Rightarrow> ('p, 'r) state \<Rightarrow> ('p, 'r) state" where
  "cv2_imshow window img st = st\<lparr>shown := shown st @ [(window, img)]\<rparr>"

subsection \<open>class StyleWindow\<close>

text \<open>
  \<^verbatim>\<open>show_style\<close> (lines 104-105): the style, resized to
  \<^verbatim>\<open>(args.style_size, args.style_size)\<close> and converted, is shown in \<open>window\<close>.
\<close>

definition show_style ::
  "('p, 'r) env \<Rightarrow> args \<Rightarrow> string \<Rightarrow> 'p image option \<Rightarrow> ('p, 'r) state
     \<Rightarrow> (unit, ('p, 'r) state) outcome" where
  "show_style env args window style_rgb st =
     and_then (of_result (cv2_resize env style_rgb (args_style_size args, args_style_size args)) st)
       (\<lambda>resized st.
     and_then (of_result (cv2_cvtColor env resized) st)
       (\<lambda>bgr st. Return () (cv2_imshow window bgr st)))"

text \<open>
  \<^verbatim>\<open>set_style(idx=None, random=False, style_idx=0, window='Style Controls')\<close>
  (lines 77-85).
\<close>

definition set_style ::
  "('p, 'r) env \<Rightarrow> args \<Rightarrow> int option \<Rightarrow> bool \<Rightarrow> nat \<Rightarrow> string \<Rightarrow> ('p, 'r) state
     \<Rightarrow> (unit, ('p, 'r) state) outcome" where
  "set_style env args idx_arg random style_idx window st =
     and_then (Return () (case idx_arg of None \<Rightarrow> st | Some i \<Rightarrow> st\<lparr>idx := Some i\<rparr>))
       (\<lambda>_ st.
     and_then
       (if random
        then and_then (np_random_randint env (int (length (style_imgs st))) st)
               (\<lambda>r st. Return () (st\<lparr>idx := Some r\<rparr>))
        else Return () st)
       (\<lambda>_ st.
     and_then (of_result (case idx st of None \<Rightarrow> Inl AttributeError | Some i \<Rightarrow> Inr i) st)
       (\<lambda>i st.
     and_then (of_result (py_getitem (style_imgs st) i) st)
       (\<lambda>style_file st.
     and_then (of_result (get_img_crop env style_file (img_size st) (crop_size st)) st)
       (\<lambda>img st.
     and_then (of_result (py_setitem (style_rgbs st) style_idx (Some img)) st)
       (\<lambda>rgbs st.
     and_then (Return () (st\<lparr>style_rgbs := rgbs\<rparr>))
       (\<lambda>_ st.
     and_then (of_result (py_getitem (style_rgbs st) (int style_idx)) st)
       (\<lambda>style_rgb st. show_style env args window style_rgb st))))))))"

text \<open>\<^verbatim>\<open>set_idx\<close> (lines 87-88).\<close>

definition set_idx ::
  "('p, 'r) env \<Rightarrow> args \<Rightarrow> int \<Rightarrow> ('p, 'r) state \<Rightarrow> (unit, ('p, 'r) state) outcome" where
  "set_idx env args i st = set_style env args (Some i) False 0 ''Style Controls'' st"

text \<open>\<^verbatim>\<open>set_size\<close> (lines 90-92): not below \<^verbatim>\<open>crop_size\<close>.\<close>

definition set_size ::
  "('p, 'r) env \<Rightarrow> args \<Rightarrow> int \<Rightarrow> ('p, 'r) state \<Rightarrow> (unit, ('p, 'r) state) outcome" where
  "set_size env args sz st =
     and_then (Return () (st\<lparr>img_size := max sz (crop_size st)\<rparr>))
       (\<lambda>_ st. set_style env args None False 0 ''Style Controls'' st)"

text \<open>\<^verbatim>\<open>set_crop_size\<close> (lines 94-96): not above \<^verbatim>\<open>img_size\<close>.\<close>

definition set_crop_size ::
  "('p, 'r) env \<Rightarrow> args \<Rightarrow> int \<Rightarrow> ('p, 'r) state \<Rightarrow> (unit, ('p, 'r) state) outcome" where
  "set_crop_size env args crop st =
     and_then (Return () (st\<lparr>crop_size := min crop (img_size st)\<rparr>))
       (\<lambda>_ st. set_style env args None False 0 ''Style Controls'' st)"

text \<open>\<^verbatim>\<open>set_scale\<close>, \<^verbatim>\<open>set_alpha\<close>, \<^verbatim>\<open>set_interp\<close> (lines 98-102, 107-108).\<close>

definition set_scale :: "int \<Rightarrow> ('p, 'r) state \<Rightarrow> (unit, ('p, 'r) state) outcome" where
  "set_scale v st = Return () (st\<lparr>scale := of_int v / 100\<rparr>)"

definition set_alpha :: "int \<Rightarrow> ('p, 'r) state \<Rightarrow> (unit, ('p, 'r) state) outcome" where
  "set_alpha v st = Return () (st\<lparr>alpha := of_int v / 100\<rparr>)"

definition set_interp :: "int \<Rightarrow> ('p, 'r) state \<Rightarrow> (unit, ('p, 'r) state) outcome" where
  "set_interp weight st = Return () (st\<lparr>interp_weight := Some (of_int weight / 100)\<rparr>)"

text \<open>Python's \<^verbatim>\<open>int(x)\<close> on a float: towards zero.\<close>

definition py_int :: "rat \<Rightarrow> int" where
  "py_int x = (if 0 \<le> x then \<lfloor>x\<rfloor> else \<lceil>x\<rceil>)"

text \<open>
  \<^verbatim>\<open>__init__(style_path, img_size=512, scale=1, alpha=1, interpolate=False)\<close>
  (lines 41-75). The object is new: no attribute exists before the constructor sets it.
\<close>

definition StyleWindow_init ::
  "('p, 'r) env \<Rightarrow> args \<Rightarrow> path \<Rightarrow> int \<Rightarrow> rat \<Rightarrow> rat \<Rightarrow> bool \<Rightarrow> ('p, 'r) state
     \<Rightarrow> (unit, ('p, 'r) state) outcome" where
  "StyleWindow_init env args style_path img_size0 scale0 alpha0 interpolate st =
     and_then (Return () (st\<lparr>idx := None, interp_weight := None\<rparr>))
       (\<lambda>_ st.
     and_then (of_result (get_files env style_path) st)
       (\<lambda>files st.
     and_then
       (Return ()
          (let st = st\<lparr>style_imgs := files\<rparr>;
               st = st\<lparr>style_rgbs := [None, None]\<rparr>;
               st = st\<lparr>img_size := img_size0\<rparr>;
               st = st\<lparr>crop_size := 256\<rparr>;
               st = st\<lparr>scale := scale0\<rparr>;
               st = st\<lparr>alpha := alpha0\<rparr>;
               st = cv2_namedWindow ''Style Controls'' st;
               st = (if 1 < length (style_imgs st)
                     then cv2_createTrackbar ''index'' ''Style Controls'' 0
                            (int (length (style_imgs st)) - 1) On_set_idx st
                     else st);
               st = cv2_createTrackbar ''alpha'' ''Style Controls'' 100 100 On_set_alpha st;
               st = cv2_createTrackbar ''size'' ''Style Controls'' img_size0 2048 On_set_size st;
               st = cv2_createTrackbar ''crop size'' ''Style Controls'' 256 2048
                      On_set_crop_size st;
               st = cv2_createTrackbar ''scale'' ''Style Controls'' (py_int (scale0 * 100)) 200
                      On_set_scale st
           in st))
       (\<lambda>_ st.
     and_then (set_style env args None True 0 ''Style Controls'' st)
       (\<lambda>_ st.
     if interpolate
     then and_then
            (Return ()
               (let st = cv2_namedWindow ''style2'' st;
                    st = st\<lparr>interp_weight := Some 1\<rparr>;
                    st = cv2_createTrackbar ''interpolation'' ''Style Controls'' 100 100
                           On_set_interp st
                in st))
            (\<lambda>_ st. set_style env args None True 1 ''style2'' st)
     else Return () st))))"

subsection \<open>Trackbar callbacks\<close>

text \<open>
  HighGUI calls a trackbar's \<^verbatim>\<open>onChange\<close> with the new position while the program sits
  in \<^verbatim>\<open>cv2.waitKey\<close>. An exception a callback raises is printed by the binding and
  goes no further, so the next callback starts in the state the last one left.
\<close>

fun on_change ::
  "('p, 'r) env \<Rightarrow> args \<Rightarrow> callback \<Rightarrow> int \<Rightarrow> ('p, 'r) state
     \<Rightarrow> (unit, ('p, 'r) state) outcome" where
  "on_change env args On_set_idx v st = set_idx env args v st"
| "on_change env args On_set_alpha v st = set_alpha v st"
| "on_change env args On_set_size v st = set_size env args v st"
| "on_change env args On_set_crop_size v st = set_crop_size env args v st"
| "on_change env args On_set_scale v st = set_scale v st"
| "on_change env args On_set_interp v st = set_interp v st"

text \<open>The outcome of every call of a sequence, in order.\<close>

fun run_callbacks ::
  "('p, 'r) env \<Rightarrow> args \<Rightarrow> (callback \<times> int) list \<Rightarrow> ('p, 'r) state
     \<Rightarrow> (unit, ('p, 'r) state) outcome list" where
  "run_callbacks env args [] st = []"
| "run_callbacks env args ((cb, v) # evs) st =
     on_change env args cb v st
       # run_callbacks env args evs (state_of (on_change env args cb v st))"

text \<open>The state after the whole sequence.\<close>

fun after_callbacks ::
  "('p, 'r) env \<Rightarrow> args \<Rightarrow> (callback \<times> int) list \<Rightarrow> ('p, 'r) state \<Rightarrow> ('p, 'r) state" where
  "after_callbacks env args [] st = st"
| "after_callbacks env args ((cb, v) # evs) st =
     after_callbacks env args evs (state_of (on_change env args cb v st))"

fun is_size_call :: "callback \<times> int \<Rightarrow> bool" where
  "is_size_call (cb, v) = (cb = On_set_size \<or> cb = On_set_crop_size)"

subsection \<open>The body of the main loop\<close>

text \<open>
  One pass of \<^verbatim>\<open>while(True)\<close> for a frame the camera delivered: what is read from the
  camera, the trackbar callbacks HighGUI runs during \<^verbatim>\<open>cv2.waitKey(10)\<close>, and the key
  it returns (\<open>-1\<close> for none).
\<close>

record 'p tick =
  tick_frame :: "'p image"
  tick_events :: "(callback \<times> int) list"
  tick_key :: int

text \<open>
  Lines 147-156: the frame is scaled by \<^verbatim>\<open>style_window.scale\<close>; with
  \<^verbatim>\<open>--noise\<close> it is replaced by random noise of the same shape, blurred with sigma
  0.5; the counter is advanced; the result is converted to RGB.
\<close>

definition content_image ::
  "('p, 'r) env \<Rightarrow> args \<Rightarrow> 'p image \<Rightarrow> ('p, 'r) state \<Rightarrow> ('p image, ('p, 'r) state) outcome" where
  "content_image env args frame st =
     and_then (of_result (cv2_resize_fx env (Some frame) (scale st) (scale st)) st)
       (\<lambda>frame_resize st.
     and_then
       (if args_noise args
        then (case noise_pixels env (rng st) (rows frame_resize) (cols frame_resize) of
                (px, r') \<Rightarrow>
                  Return
                    (gaussian_filter env
                       \<lparr>rows = rows frame_resize, cols = cols frame_resize, pixels = px\<rparr> (1 / 2))
                    (st\<lparr>rng := r'\<rparr>))
        else Return frame_resize st)
       (\<lambda>frame_resize st.
     and_then (Return () (st\<lparr>count := count st + 1\<rparr>))
       (\<lambda>_ st. of_result (cv2_cvtColor env frame_resize) st)))"

text \<open>Lines 158-159: every \<^verbatim>\<open>args.random\<close> frames a random style is loaded.\<close>

definition auto_reload ::
  "('p, 'r) env \<Rightarrow> args \<Rightarrow> ('p, 'r) state \<Rightarrow> (unit, ('p, 'r) state) outcome" where
  "auto_reload env args st =
     (if 0 < args_random args \<and> count st mod args_random args = 0
      then set_style env args None True 0 ''Style Controls'' st
      else Return () st)"

text \<open>
  Lines 161-162:
  \<^verbatim>\<open>style_window.style_rgb = preserve_colors(style_window.style_rgb, content_img)\<close>.
  The arguments are evaluated first, left to right. \<^verbatim>\<open>style_rgb\<close> is an attribute no
  line of the file assigns before this one (the class has \<^verbatim>\<open>style_rgbs\<close>), so reading
  it raises \<^verbatim>\<open>AttributeError\<close>; the name \<^verbatim>\<open>content_img\<close>, bound nowhere, is not
  reached, nor is the call or the assignment.
\<close>

definition recolor_style :: "('p, 'r) state \<Rightarrow> (unit, ('p, 'r) state) outcome" where
  "recolor_style st = (if keep_colors st then Raise AttributeError st else Return () st)"

text \<open>Lines 164-172: the call of the network.\<close>

definition stylize ::
  "('p, 'r) env \<Rightarrow> args \<Rightarrow> 'p image \<Rightarrow> ('p, 'r) state \<Rightarrow> ('p image, ('p, 'r) state) outcome" where
  "stylize env args image_rgb st =
     (if \<not> args_interpolate args
      then and_then (of_result (py_getitem (style_rgbs st) 0) st)
             (\<lambda>style st. of_result (predict env image_rgb style (alpha st)) st)
      else and_then
             (of_result (case interp_weight st of None \<Rightarrow> Inl AttributeError | Some w \<Rightarrow> Inr w) st)
             (\<lambda>w st.
           and_then (Return [w, 1 - w] st)
             (\<lambda>interp_weights st.
           of_result
             (predict_interpolate env image_rgb (style_rgbs st) interp_weights (alpha st)) st)))"

text \<open>Lines 174-178: with \<^verbatim>\<open>--concat\<close> and one style, the style goes to the left.\<close>

definition stitch ::
  "('p, 'r) env \<Rightarrow> args \<Rightarrow> 'p image \<Rightarrow> ('p, 'r) state \<Rightarrow> ('p image, ('p, 'r) state) outcome" where
  "stitch env args stylized_rgb st =
     (if args_concat args \<and> \<not> args_interpolate args
      then and_then (of_result (py_getitem (style_rgbs st) 0) st)
             (\<lambda>style st.
           and_then
             (of_result
                (cv2_resize env style (int (rows stylized_rgb), int (rows stylized_rgb))) st)
             (\<lambda>style_rgb_resized st. of_result (np_hstack env style_rgb_resized stylized_rgb) st))
      else Return stylized_rgb st)"

text \<open>
  Lines 180-186: back to BGR; with \<^verbatim>\<open>--video-out\<close> the frame is resized to
  \<^verbatim>\<open>out_shape\<close> and written; then it is shown.
\<close>

definition show_frame ::
  "('p, 'r) env \<Rightarrow> args \<Rightarrow> 'p image \<Rightarrow> ('p, 'r) state \<Rightarrow> (unit, ('p, 'r) state) outcome" where
  "show_frame env args stylized_rgb st =
     and_then (of_result (cv2_cvtColor env stylized_rgb) st)
       (\<lambda>stylized_bgr st.
     and_then
       (case args_video_out args of
          None \<Rightarrow> Return stylized_bgr st
        | Some file \<Rightarrow>
            and_then (of_result (case out_shape st of None \<Rightarrow> Inl NameError | Some d \<Rightarrow> Inr d) st)
              (\<lambda>d st.
            and_then (of_result (cv2_resize env (Some stylized_bgr) d) st)
              (\<lambda>stylized_bgr st.
            and_then
              (of_result (case video_writer st of None \<Rightarrow> Inl NameError | Some vw \<Rightarrow> Inr vw) st)
              (\<lambda>vw st.
            Return stylized_bgr
              (st\<lparr>video_writer := Some (vw\<lparr>written := written vw @ [stylized_bgr]\<rparr>)\<rparr>)))))
       (\<lambda>stylized_bgr st. Return () (cv2_imshow ''AdaIN Style'' stylized_bgr st)))"

text \<open>
  Lines 190-199: \<^verbatim>\<open>cv2.waitKey(10)\<close> and the key. \<open>114\<close>, \<open>99\<close> and \<open>113\<close> are
  \<^verbatim>\<open>ord('r')\<close>, \<^verbatim>\<open>ord('c')\<close> and \<^verbatim>\<open>ord('q')\<close>. The result says whether the loop
  breaks.
\<close>

definition handle_key ::
  "('p, 'r) env \<Rightarrow> args \<Rightarrow> (callback \<times> int) list \<Rightarrow> int \<Rightarrow> ('p, 'r) state
     \<Rightarrow> (bool, ('p, 'r) state) outcome" where
  "handle_key env args evs k st =
     and_then (Return k (after_callbacks env args evs st))
       (\<lambda>key st.
     if key AND 255 = 114
     then and_then (set_style env args None True 0 ''Style Controls'' st)
            (\<lambda>_ st.
          if args_interpolate args
          then and_then (set_style env args None True 1 ''style2'' st) (\<lambda>_ st. Return False st)
          else Return False st)
     else if key AND 255 = 99 then Return False (st\<lparr>keep_colors := \<not> keep_colors st\<rparr>)
     else if key AND 255 = 113 then Return True st
     else Return False st)"

text \<open>Lines 147-199, for one frame.\<close>

definition process_frame ::
  "('p, 'r) env \<Rightarrow> args \<Rightarrow> 'p tick \<Rightarrow> ('p, 'r) state \<Rightarrow> (bool, ('p, 'r) state) outcome" where
  "process_frame env args t st =
     and_then (content_image env args (tick_frame t) st)
       (\<lambda>image_rgb st.
     and_then (auto_reload env args st)
       (\<lambda>_ st.
     and_then (recolor_style st)
       (\<lambda>_ st.
     and_then (stylize env args image_rgb st)
       (\<lambda>stylized_rgb st.
     and_then (stitch env args stylized_rgb st)
       (\<lambda>stylized_rgb st.
     and_then (show_frame env args stylized_rgb st)
       (\<lambda>_ st. handle_key env args (tick_events t) (tick_key t) st))))))"

subsection \<open>main\<close>

text \<open>
  The loop (lines 143-201) over the frames the camera delivers; when the list is used
  up, \<^verbatim>\<open>cap.read()\<close> reports failure and the loop breaks. Nothing in the loop catches
  an exception.
\<close>

fun main_loop ::
  "('p, 'r) env \<Rightarrow> args \<Rightarrow> 'p tick list \<Rightarrow> ('p, 'r) state \<Rightarrow> (unit, ('p, 'r) state) outcome" where
  "main_loop env args [] st = Return () st"
| "main_loop env args (t # ts) st =
     and_then (process_frame env args t st)
       (\<lambda>quit st. if quit then Return () st else main_loop env args ts st)"

text \<open>The state \<^verbatim>\<open>main\<close> starts in: nothing exists yet but the generator.\<close>

definition initial_state :: "'r \<Rightarrow> ('p, 'r) state" where
  "initial_state r0 =
     \<lparr>style_imgs = [], style_rgbs = [], img_size = 0, crop_size = 0, scale = 0, alpha = 0,
      idx = None, interp_weight = None, rng = r0, windows = [], trackbars = [], shown = [],
      out_shape = None, video_writer = None, keep_colors = False, count = 0\<rparr>"

text \<open>Lines 127-135: the size of the video, from the scaled sample frame.\<close>

definition video_out_shape :: "args \<Rightarrow> 'p image \<Rightarrow> int \<times> int" where
  "video_out_shape args frame_resize =
     (if args_concat args
      then (int (cols frame_resize) + int (rows frame_resize), int (rows frame_resize))
      else (int (cols frame_resize), int (rows frame_resize)))"

definition setup_video ::
  "args \<Rightarrow> 'p image \<Rightarrow> ('p, 'r) state \<Rightarrow> ('p, 'r) state" where
  "setup_video args frame_resize st =
     (case args_video_out args of
        None \<Rightarrow> st
      | Some file \<Rightarrow>
          (let shape = video_out_shape args frame_resize;
               st = st\<lparr>out_shape := Some shape\<rparr>;
               st = st\<lparr>video_writer :=
                      Some \<lparr>filename = file, fps = args_fps args, frame_size = shape,
                            written = [], released = False\<rparr>\<rparr>
           in st))"

text \<open>Lines 203-212: the writer is released and the windows are closed.\<close>

definition shutdown :: "args \<Rightarrow> ('p, 'r) state \<Rightarrow> ('p, 'r) state" where
  "shutdown args st =
     (let st = (case args_video_out args of
                  None \<Rightarrow> st
                | Some file \<Rightarrow>
                    st\<lparr>video_writer := map_option (\<lambda>vw. vw\<lparr>released := True\<rparr>) (video_writer st)\<rparr>)
      in st\<lparr>windows := []\<rparr>)"

text \<open>
  \<^verbatim>\<open>main\<close> (lines 111-212). \<open>sample\<close> is the frame of the first \<^verbatim>\<open>cap.read()\<close>
  (line 121, \<open>None\<close> when the camera gave nothing), \<open>ticks\<close> are the later reads.
\<close>

definition main ::
  "('p, 'r) env \<Rightarrow> args \<Rightarrow> 'p image option \<Rightarrow> 'p tick list \<Rightarrow> 'r
     \<Rightarrow> (unit, ('p, 'r) state) outcome" where
  "main env args sample ticks r0 =
     and_then
       (StyleWindow_init env args (args_style_path args) (args_style_size args) (args_scale args)
          (args_alpha args) (args_interpolate args) (initial_state r0))
       (\<lambda>_ st.
     and_then (of_result (cv2_resize_fx env sample (args_scale args) (args_scale args)) st)
       (\<lambda>frame_resize st.
     and_then (Return () (setup_video args frame_resize st))
       (\<lambda>_ st.
     and_then (Return () (st\<lparr>keep_colors := args_keep_colors args\<rparr>))
       (\<lambda>_ st.
     and_then (Return () (st\<lparr>count := 0\<rparr>))
       (\<lambda>_ st.
     and_then (main_loop env args ticks st)
       (\<lambda>_ st. Return () (shutdown args st)))))))"

subsection \<open>A concrete session\<close>

text \<open>
  Collaborators to run the program on. Pixel data is a name. The loader returns a
  \<open>crop \<times> crop\<close> image named after the file; the network echoes its content input
  and fails on the frame named \<open>bad\<close>; resizing, colour conversion and blurring keep
  the name.
\<close>

definition demo_env :: "(string, nat) env" where
  "demo_env =
     \<lparr>get_files = (\<lambda>p. if p = ''styles'' then Inr [''a.jpg'', ''b.jpg'']
                         else if p = ''single'' then Inr [''a.jpg'']
                         else Inl EmptyCatalogError),
      get_img_crop = (\<lambda>file resize crop. Inr \<lparr>rows = nat crop, cols = nat crop, pixels = file\<rparr>),
      predict = (\<lambda>content style a.
                   if pixels content = ''bad'' then Inl InferenceError else Inr content),
      predict_interpolate = (\<lambda>content styles weights a.
                   if pixels content = ''bad'' then Inl InferenceError else Inr content),
      draw = (\<lambda>r. (r, Suc r)),
      noise_pixels = (\<lambda>r h w. (''noise'', Suc r)),
      gaussian_pixels = (\<lambda>sigma p. p),
      resample = (\<lambda>img w h. pixels img),
      swap_channels = (\<lambda>p. p),
      hstack_pixels = (\<lambda>a b. pixels a @ pixels b)\<rparr>"

definition demo_args :: args where
  "demo_args =
     \<lparr>args_style_path = ''styles'', args_video_out = None, args_fps = 10, args_scale = 1,
      args_keep_colors = False, args_style_size = 512, args_alpha = 1, args_concat = False,
      args_interpolate = False, args_noise = False, args_random = 0\<rparr>"

definition demo_frame :: "string \<Rightarrow> string image" where
  "demo_frame name = \<lparr>rows = 480, cols = 640, pixels = name\<rparr>"

definition demo_tick :: "string \<Rightarrow> string tick" where
  "demo_tick name = \<lparr>tick_frame = demo_frame name, tick_events = [], tick_key = - 1\<rparr>"

text \<open>
  The state after \<^verbatim>\<open>StyleWindow('styles', 512, 1, 1, False)\<close> with the generator at
  \<open>0\<close>: the draw picks style 0.
\<close>

definition demo_state :: "(string, nat) state" where
  "demo_state =
     \<lparr>style_imgs = [''a.jpg'', ''b.jpg''],
      style_rgbs = [Some \<lparr>rows = 256, cols = 256, pixels = ''a.jpg''\<rparr>, None],
      img_size = 512, crop_size = 256, scale = 1, alpha = 1,
      idx = Some 0, interp_weight = None, rng = 1, windows = [''Style Controls''],
      trackbars =
        [\<lparr>tb_name = ''index'', tb_window = ''Style Controls'', tb_value = 0, tb_count = 1,
          tb_onChange = On_set_idx\<rparr>,
         \<lparr>tb_name = ''alpha'', tb_window = ''Style Controls'', tb_value = 100, tb_count = 100,
          tb_onChange = On_set_alpha\<rparr>,
         \<lparr>tb_name = ''size'', tb_window = ''Style Controls'', tb_value = 512, tb_count = 2048,
          tb_onChange = On_set_size\<rparr>,
         \<lparr>tb_name = ''crop size'', tb_window = ''Style Controls'', tb_value = 256,
          tb_count = 2048, tb_onChange = On_set_crop_size\<rparr>,
         \<lparr>tb_name = ''scale'', tb_window = ''Style Controls'', tb_value = 100, tb_count = 200,
          tb_onChange = On_set_scale\<rparr>],
      shown = [(''Style Controls'', \<lparr>rows = 512, cols = 512, pixels = ''a.jpg''\<rparr>)],
      out_shape = None, video_writer = None, keep_colors = False, count = 0\<rparr>"

text \<open>Ten frames, the third of which the network fails on.\<close>

definition ten_ticks :: "string tick list" where
  "ten_ticks = map demo_tick [''f1'', ''f2'', ''bad'', ''f4'', ''f5'', ''f6'', ''f7'', ''f8'', ''f9'', ''f10'']"

subsection \<open>The video invariant\<close>

text \<open>
  The loop invariant of the video output: \<^verbatim>\<open>out_shape\<close> is \<open>d\<close>, the writer exists and
  was opened with \<open>d\<close>, and every frame written so far is \<open>d\<close> wide and high.
\<close>

definition video_locked :: "int \<times> int \<Rightarrow> ('p, 'r) state \<Rightarrow> bool" where
  "video_locked d st =
     (out_shape st = Some d \<and>
      (case video_writer st of
         None \<Rightarrow> False
       | Some vw \<Rightarrow>
           frame_size vw = d \<and> list_all (\<lambda>img. (int (cols img), int (rows img)) = d) (written vw)))"

section \<open>Facts about the style controls\<close>

lemma state_of_of_result [simp]: "state_of (of_result x s) = s"
  by (cases x) simp_all

lemma and_then_of_result:
  "and_then (of_result x s) f = (case x of Inl e \<Rightarrow> Raise e s | Inr v \<Rightarrow> f v s)"
  by (cases x) simp_all

lemma and_then_preserves:
  assumes "g (state_of m) = c" and "\<And>v s. g s = c \<Longrightarrow> g (state_of (f v s)) = c"
  shows "g (state_of (and_then m f)) = c"
  using assms by (cases m) simp_all

lemma show_style_preserves:
  assumes "\<And>s v. g (s\<lparr>shown := v\<rparr>) = g s"
  shows "g (state_of (show_style env args w img st)) = g st"
  unfolding show_style_def
  by (intro and_then_preserves[where g=g]) (simp_all add: cv2_imshow_def assms)

lemma show_style_returns:
  "returns (show_style env args w img st) =
     (case img of None \<Rightarrow> False
      | Some im \<Rightarrow> rows im \<noteq> 0 \<and> cols im \<noteq> 0 \<and> 0 < args_style_size args)"
  by (auto simp add: show_style_def cv2_resize_def cv2_cvtColor_def split: option.split)

lemma randint_preserves:
  assumes "\<And>s v. g (s\<lparr>rng := v\<rparr>) = g s"
  shows "g (state_of (np_random_randint env n st)) = g st"
  by (simp add: np_random_randint_def assms split: prod.split)

lemma set_style_preserves:
  assumes "\<And>s v. g (s\<lparr>idx := v\<rparr>) = g s" and "\<And>s v. g (s\<lparr>rng := v\<rparr>) = g s"
    and "\<And>s v. g (s\<lparr>style_rgbs := v\<rparr>) = g s" and "\<And>s v. g (s\<lparr>shown := v\<rparr>) = g s"
  shows "g (state_of (set_style env args i random k w st)) = g st"
  unfolding set_style_def
  apply (intro and_then_preserves[where g=g])
          apply (simp add: assms split: option.split)
         apply (auto simp add: assms randint_preserves intro!: and_then_preserves[where g=g])[1]
        apply (simp_all add: assms show_style_preserves)
  done

lemma py_getitem_after_setitem:
  "k < length xs \<Longrightarrow> py_getitem (xs[k := v]) (int k) = Inr v"
  by (simp add: py_getitem_def)


lemma set_style_fixed:
  "set_style env args i False k w st =
     (let st1 = (case i of None \<Rightarrow> st | Some j \<Rightarrow> st\<lparr>idx := Some j\<rparr>) in
      case idx st1 of
        None \<Rightarrow> Raise AttributeError st1
      | Some j \<Rightarrow>
          (case py_getitem (style_imgs st) j of
             Inl e \<Rightarrow> Raise e st1
           | Inr file \<Rightarrow>
               (case get_img_crop env file (img_size st) (crop_size st) of
                  Inl e \<Rightarrow> Raise e st1
                | Inr img \<Rightarrow>
                    if k < length (style_rgbs st)
                    then show_style env args w (Some img)
                           (st1\<lparr>style_rgbs := (style_rgbs st)[k := Some img]\<rparr>)
                    else Raise IndexError st1)))"
  by (simp add: set_style_def and_then_of_result py_setitem_def py_getitem_after_setitem Let_def
      split: option.split sum.split)

lemma tl_list_update_0: "tl (xs[0 := v]) = tl xs"
  by (cases xs) simp_all

lemma set_style_fixed_rgbs:
  "style_rgbs (state_of (set_style env args i False k w st)) =
     (case (case i of None \<Rightarrow> idx st | Some j \<Rightarrow> Some j) of
        None \<Rightarrow> style_rgbs st
      | Some j \<Rightarrow>
          (case py_getitem (style_imgs st) j of
             Inl e \<Rightarrow> style_rgbs st
           | Inr file \<Rightarrow>
               (case get_img_crop env file (img_size st) (crop_size st) of
                  Inl e \<Rightarrow> style_rgbs st
                | Inr img \<Rightarrow> (style_rgbs st)[k := Some img])))"
  by (simp add: set_style_fixed Let_def show_style_preserves list_update_beyond
      split: option.split sum.split)

lemma set_style_fixed_returns:
  "returns (set_style env args i False k w st) =
     (case (case i of None \<Rightarrow> idx st | Some j \<Rightarrow> Some j) of
        None \<Rightarrow> False
      | Some j \<Rightarrow>
          (case py_getitem (style_imgs st) j of
             Inl e \<Rightarrow> False
           | Inr file \<Rightarrow>
               (case get_img_crop env file (img_size st) (crop_size st) of
                  Inl e \<Rightarrow> False
                | Inr img \<Rightarrow>
                    k < length (style_rgbs st) \<and> rows img \<noteq> 0 \<and> cols img \<noteq> 0
                    \<and> 0 < args_style_size args)))"
  by (simp add: set_style_fixed Let_def show_style_returns split: option.split sum.split)

lemma set_idx_rgbs:
  "style_rgbs (state_of (set_idx env args i st)) =
     (case py_getitem (style_imgs st) i of
        Inl e \<Rightarrow> style_rgbs st
      | Inr file \<Rightarrow>
          (case get_img_crop env file (img_size st) (crop_size st) of
             Inl e \<Rightarrow> style_rgbs st
           | Inr img \<Rightarrow> (style_rgbs st)[0 := Some img]))"
  by (simp add: set_idx_def set_style_fixed_rgbs)

lemma set_idx_returns:
  "returns (set_idx env args i st) =
     (case py_getitem (style_imgs st) i of
        Inl e \<Rightarrow> False
      | Inr file \<Rightarrow>
          (case get_img_crop env file (img_size st) (crop_size st) of
             Inl e \<Rightarrow> False
           | Inr img \<Rightarrow>
               style_rgbs st \<noteq> [] \<and> rows img \<noteq> 0 \<and> cols img \<noteq> 0 \<and> 0 < args_style_size args))"
  by (simp add: set_idx_def set_style_fixed_returns split: sum.split)

lemma set_idx_keeps:
  "style_imgs (state_of (set_idx env args i st)) = style_imgs st"
  "img_size (state_of (set_idx env args i st)) = img_size st"
  "crop_size (state_of (set_idx env args i st)) = crop_size st"
  by (simp_all add: set_idx_def set_style_preserves)

lemma set_size_fields:
  "img_size (state_of (set_size env args v st)) = max v (crop_size st)"
  "crop_size (state_of (set_size env args v st)) = crop_size st"
  by (simp_all add: set_size_def set_style_preserves)

lemma set_crop_size_fields:
  "crop_size (state_of (set_crop_size env args v st)) = min v (img_size st)"
  "img_size (state_of (set_crop_size env args v st)) = img_size st"
  by (simp_all add: set_crop_size_def set_style_preserves)

lemma size_call_invariant:
  "is_size_call ev \<Longrightarrow>
   crop_size (state_of (on_change env args (fst ev) (snd ev) st))
     \<le> img_size (state_of (on_change env args (fst ev) (snd ev) st))"
  by (cases ev) (auto simp add: set_size_fields set_crop_size_fields)

lemma size_calls_invariant:
  "list_all is_size_call evs \<Longrightarrow>
   list_all (\<lambda>r. crop_size (state_of r) \<le> img_size (state_of r)) (run_callbacks env args evs st)"
proof (induction evs arbitrary: st)
  case Nil
  then show ?case by simp
next
  case (Cons ev evs)
  obtain cb v where ev: "ev = (cb, v)" by (cases ev)
  from Cons.prems have "is_size_call ev" and rest: "list_all is_size_call evs" by simp_all
  from size_call_invariant [OF this(1), of env args st] Cons.IH [OF rest]
  show ?case by (simp add: ev)
qed

lemma set_size_returns:
  "returns (set_size env args v st) =
     (case idx st of
        None \<Rightarrow> False
      | Some j \<Rightarrow>
          (case py_getitem (style_imgs st) j of
             Inl e \<Rightarrow> False
           | Inr file \<Rightarrow>
               (case get_img_crop env file (max v (crop_size st)) (crop_size st) of
                  Inl e \<Rightarrow> False
                | Inr img \<Rightarrow>
                    style_rgbs st \<noteq> [] \<and> rows img \<noteq> 0 \<and> cols img \<noteq> 0
                    \<and> 0 < args_style_size args)))"
  by (simp add: set_size_def set_style_fixed_returns split: option.split sum.split)

lemma set_crop_size_returns:
  "returns (set_crop_size env args v st) =
     (case idx st of
        None \<Rightarrow> False
      | Some j \<Rightarrow>
          (case py_getitem (style_imgs st) j of
             Inl e \<Rightarrow> False
           | Inr file \<Rightarrow>
               (case get_img_crop env file (img_size st) (min v (img_size st)) of
                  Inl e \<Rightarrow> False
                | Inr img \<Rightarrow>
                    style_rgbs st \<noteq> [] \<and> rows img \<noteq> 0 \<and> cols img \<noteq> 0
                    \<and> 0 < args_style_size args)))"
  by (simp add: set_crop_size_def set_style_fixed_returns split: option.split sum.split)

lemma set_style_slot0_tl:
  "tl (style_rgbs (state_of (set_style env args i False 0 w st))) = tl (style_rgbs st)"
  by (simp add: set_style_fixed_rgbs tl_list_update_0 split: option.split sum.split)

lemma set_style_slot0_nth:
  "style_rgbs (state_of (set_style env args i False 0 w st)) ! Suc n = style_rgbs st ! Suc n"
  by (simp add: set_style_fixed_rgbs split: option.split sum.split)

lemma demo_state_reached:
  "StyleWindow_init demo_env demo_args ''styles'' 512 1 1 False (initial_state 0)
     = Return () demo_state"
  by (simp add: StyleWindow_init_def set_style_def show_style_def np_random_randint_def
      initial_state_def demo_env_def demo_args_def demo_state_def cv2_namedWindow_def
      cv2_createTrackbar_def cv2_imshow_def cv2_resize_def cv2_cvtColor_def py_getitem_def
      py_setitem_def py_int_def)

section \<open>The size and crop trackbars\<close>

text \<open>
  Claim C1, as amended. Let any sequence of \<^verbatim>\<open>set_size\<close> and \<^verbatim>\<open>set_crop_size\<close>
  calls run, with any integers, from any state. After every call
  \<open>crop_size \<le> img_size\<close>, whether the call returned or raised: \<^verbatim>\<open>set_size\<close> stores
  \<open>max v crop_size\<close> and leaves \<open>crop_size\<close>, \<^verbatim>\<open>set_crop_size\<close> stores
  \<open>min v img_size\<close> and leaves \<open>img_size\<close>. The clamping itself cannot raise, but the
  call goes on to reload the style, and it returns exactly when that reload succeeds:
  the index attribute exists and is in range, \<^verbatim>\<open>get_img_crop\<close> returns an image for
  the clamped sizes, and the preview can be rendered (the image is not empty and
  \<^verbatim>\<open>args.style_size\<close> is positive). Otherwise the exception leaves the method.
\<close>

theorem size_calls_clamp:
  assumes "list_all is_size_call evs"
  shows "list_all (\<lambda>r. crop_size (state_of r) \<le> img_size (state_of r))
           (run_callbacks env args evs st)
    \<and> img_size (state_of (set_size env args v st)) = max v (crop_size st)
    \<and> crop_size (state_of (set_size env args v st)) = crop_size st
    \<and> crop_size (state_of (set_crop_size env args v st)) = min v (img_size st)
    \<and> img_size (state_of (set_crop_size env args v st)) = img_size st
    \<and> returns (set_size env args v st) =
        (case idx st of
           None \<Rightarrow> False
         | Some j \<Rightarrow>
             (case py_getitem (style_imgs st) j of
                Inl e \<Rightarrow> False
              | Inr file \<Rightarrow>
                  (case get_img_crop env file (max v (crop_size st)) (crop_size st) of
                     Inl e \<Rightarrow> False
                   | Inr img \<Rightarrow>
                       style_rgbs st \<noteq> [] \<and> rows img \<noteq> 0 \<and> cols img \<noteq> 0
                       \<and> 0 < args_style_size args)))
    \<and> returns (set_crop_size env args v st) =
        (case idx st of
           None \<Rightarrow> False
         | Some j \<Rightarrow>
             (case py_getitem (style_imgs st) j of
                Inl e \<Rightarrow> False
              | Inr file \<Rightarrow>
                  (case get_img_crop env file (img_size st) (min v (img_size st)) of
                     Inl e \<Rightarrow> False
                   | Inr img \<Rightarrow>
                       style_rgbs st \<noteq> [] \<and> rows img \<noteq> 0 \<and> cols img \<noteq> 0
                       \<and> 0 < args_style_size args)))"
proof -
  note size_calls_invariant [OF assms, of env args st]
  moreover note set_size_fields [of env args v st] set_crop_size_fields [of env args v st]
  moreover note set_size_returns [of env args v st] set_crop_size_returns [of env args v st]
  ultimately show ?thesis by (simp only: simp_thms)
qed

text \<open>
  The theorem at work: the size is pulled down to 100 (clamped to 256), the crop pushed
  up to 5000 (clamped to 256), the crop set to 200.
\<close>

theorem size_calls_clamp_witness:
  "list_all is_size_call [(On_set_size, 100), (On_set_crop_size, 5000), (On_set_crop_size, 200)]
   \<and> list_all (\<lambda>r. crop_size (state_of r) \<le> img_size (state_of r))
       (run_callbacks demo_env demo_args
          [(On_set_size, 100), (On_set_crop_size, 5000), (On_set_crop_size, 200)] demo_state)
   \<and> img_size (state_of (set_size demo_env demo_args 100 demo_state)) = 256
   \<and> returns (set_size demo_env demo_args 100 demo_state)"
proof -
  have calls: "list_all is_size_call
      [(On_set_size, 100), (On_set_crop_size, 5000), (On_set_crop_size, 200)]"
    by simp
  from size_calls_clamp [OF calls, of demo_env demo_args demo_state 100] calls
  show ?thesis
    by (simp add: demo_state_def demo_env_def demo_args_def py_getitem_def)
qed

text \<open>
  Claim C1 as stated fails at its last clause. The crop trackbar starts at 0; moved
  there, \<^verbatim>\<open>set_crop_size(0)\<close> stores \<open>min 0 512 = 0\<close> and reloads; the loader of the
  concrete session returns the \<open>0 \<times> 0\<close> crop, and \<^verbatim>\<open>cv2.resize\<close> in
  \<^verbatim>\<open>show_style\<close> raises on the empty image. Nothing in the method catches it.
\<close>

theorem set_crop_size_zero_raises:
  "raised (set_crop_size demo_env demo_args 0 demo_state) = Some Cv2Error"
  by (simp add: set_crop_size_def set_style_def demo_state_def demo_env_def demo_args_def
       show_style_def py_getitem_def py_setitem_def cv2_resize_def cv2_cvtColor_def cv2_imshow_def)

section \<open>Selecting a style by index\<close>

text \<open>
  Claim C7. \<^verbatim>\<open>set_idx(i)\<close> called twice in a row with the same \<open>i\<close> leaves the same
  style buffers, slot 0 included, after the second call as after the first, and the
  second call returns exactly if the first did. The loader \<^verbatim>\<open>get_img_crop\<close> is a
  function of the file, the size and the crop, as the specification describes it.
\<close>

theorem set_idx_idempotent:
  "style_rgbs (state_of (set_idx env args i (state_of (set_idx env args i st))))
     = style_rgbs (state_of (set_idx env args i st))
   \<and> returns (set_idx env args i (state_of (set_idx env args i st)))
     = returns (set_idx env args i st)"
proof -
  let ?st' = "state_of (set_idx env args i st)"
  have rgbs: "style_rgbs (state_of (set_idx env args i ?st')) = style_rgbs ?st'"
    by (simp add: set_idx_rgbs set_idx_keeps split: sum.split)
  have "(style_rgbs ?st' \<noteq> []) = (style_rgbs st \<noteq> [])"
    by (simp add: set_idx_rgbs split: sum.split)
  then have ret: "returns (set_idx env args i ?st') = returns (set_idx env args i st)"
    by (simp add: set_idx_returns set_idx_keeps split: sum.split)
  from rgbs ret show ?thesis by simp
qed

section \<open>The content scale\<close>

text \<open>
  Claim C8. \<^verbatim>\<open>set_scale(v)\<close> returns, stores \<open>v / 100\<close> as the scale and changes
  nothing else: both style buffers, the style index, the size, the crop size, alpha
  and the interpolation weight are as before, and no reload took place (the generator
  has not moved and nothing was shown).
\<close>

theorem set_scale_only_scale:
  "set_scale v st = Return () (st\<lparr>scale := of_int v / 100\<rparr>)
   \<and> scale (state_of (set_scale v st)) = of_int v / 100
   \<and> style_rgbs (state_of (set_scale v st)) = style_rgbs st
   \<and> idx (state_of (set_scale v st)) = idx st
   \<and> img_size (state_of (set_scale v st)) = img_size st
   \<and> crop_size (state_of (set_scale v st)) = crop_size st
   \<and> alpha (state_of (set_scale v st)) = alpha st
   \<and> interp_weight (state_of (set_scale v st)) = interp_weight st
   \<and> style_imgs (state_of (set_scale v st)) = style_imgs st
   \<and> rng (state_of (set_scale v st)) = rng st
   \<and> shown (state_of (set_scale v st)) = shown st"
  by (simp add: set_scale_def)

section \<open>The second style slot\<close>

text \<open>
  Claim C10. \<^verbatim>\<open>set_idx\<close>, \<^verbatim>\<open>set_size\<close> and \<^verbatim>\<open>set_crop_size\<close> reload slot 0 only:
  whatever their argument and whether they return or raise, every other entry of
  \<^verbatim>\<open>style_rgbs\<close>, slot 1 in particular, is what it was before the call.
\<close>

theorem secondary_slot_untouched:
  "tl (style_rgbs (state_of (set_idx env args v st))) = tl (style_rgbs st)
   \<and> tl (style_rgbs (state_of (set_size env args v st))) = tl (style_rgbs st)
   \<and> tl (style_rgbs (state_of (set_crop_size env args v st))) = tl (style_rgbs st)
   \<and> style_rgbs (state_of (set_idx env args v st)) ! 1 = style_rgbs st ! 1
   \<and> style_rgbs (state_of (set_size env args v st)) ! 1 = style_rgbs st ! 1
   \<and> style_rgbs (state_of (set_crop_size env args v st)) ! 1 = style_rgbs st ! 1"
  by (simp add: set_idx_def set_size_def set_crop_size_def set_style_slot0_tl
      set_style_slot0_nth [where n=0, simplified])

section \<open>Facts about the loop\<close>

text \<open>What a stage of the loop body leaves alone, and what it keeps true.\<close>

lemma and_then_inv:
  assumes "P (state_of m)" and "\<And>v s. P s \<Longrightarrow> P (state_of (f v s))"
  shows "P (state_of (and_then m f))"
  using assms by (cases m) simp_all

lemma show_style_appends:
  assumes "\<And>s b. g (s\<lparr>shown := shown s @ [(w, b)]\<rparr>) = g s"
  shows "g (state_of (show_style env args w img st)) = g st"
  unfolding show_style_def
  by (intro and_then_preserves[where g=g]) (simp_all add: cv2_imshow_def assms)

lemma set_style_appends:
  assumes "\<And>s v. g (s\<lparr>idx := v\<rparr>) = g s" and "\<And>s v. g (s\<lparr>rng := v\<rparr>) = g s"
    and "\<And>s v. g (s\<lparr>style_rgbs := v\<rparr>) = g s"
    and "\<And>s b. g (s\<lparr>shown := shown s @ [(w, b)]\<rparr>) = g s"
  shows "g (state_of (set_style env args i random k w st)) = g st"
  unfolding set_style_def
  apply (intro and_then_preserves[where g=g])
          apply (simp add: assms split: option.split)
         apply (auto simp add: assms randint_preserves intro!: and_then_preserves[where g=g])[1]
        apply (simp_all add: assms show_style_appends)
  done

lemma on_change_preserves:
  assumes "\<And>s v. g (s\<lparr>idx := v\<rparr>) = g s" and "\<And>s v. g (s\<lparr>rng := v\<rparr>) = g s"
    and "\<And>s v. g (s\<lparr>style_rgbs := v\<rparr>) = g s"
    and "\<And>s b. g (s\<lparr>shown := shown s @ [(''Style Controls'', b)]\<rparr>) = g s"
    and "\<And>s v. g (s\<lparr>img_size := v\<rparr>) = g s" and "\<And>s v. g (s\<lparr>crop_size := v\<rparr>) = g s"
    and "\<And>s v. g (s\<lparr>scale := v\<rparr>) = g s" and "\<And>s v. g (s\<lparr>alpha := v\<rparr>) = g s"
    and "\<And>s v. g (s\<lparr>interp_weight := v\<rparr>) = g s"
  shows "g (state_of (on_change env args cb v st)) = g st"
  by (cases cb)
     (simp_all add: set_idx_def set_size_def set_crop_size_def set_scale_def set_alpha_def
        set_interp_def set_style_appends [where g=g] assms)

lemma after_callbacks_preserves:
  assumes "\<And>s v. g (s\<lparr>idx := v\<rparr>) = g s" and "\<And>s v. g (s\<lparr>rng := v\<rparr>) = g s"
    and "\<And>s v. g (s\<lparr>style_rgbs := v\<rparr>) = g s"
    and "\<And>s b. g (s\<lparr>shown := shown s @ [(''Style Controls'', b)]\<rparr>) = g s"
    and "\<And>s v. g (s\<lparr>img_size := v\<rparr>) = g s" and "\<And>s v. g (s\<lparr>crop_size := v\<rparr>) = g s"
    and "\<And>s v. g (s\<lparr>scale := v\<rparr>) = g s" and "\<And>s v. g (s\<lparr>alpha := v\<rparr>) = g s"
    and "\<And>s v. g (s\<lparr>interp_weight := v\<rparr>) = g s"
  shows "g (after_callbacks env args evs st) = g st"
proof (induction evs arbitrary: st)
  case Nil
  show ?case by simp
next
  case (Cons ev evs)
  obtain cb v where ev: "ev = (cb, v)" by (cases ev)
  show ?case
    by (simp add: ev Cons.IH on_change_preserves [where g=g] assms)
qed

lemma content_image_preserves:
  assumes "\<And>s v. g (s\<lparr>rng := v\<rparr>) = g s" and "\<And>s v. g (s\<lparr>count := v\<rparr>) = g s"
  shows "g (state_of (content_image env args f st)) = g st"
  unfolding content_image_def
  by (intro and_then_preserves[where g=g]) (simp_all add: assms split: prod.split)

lemma auto_reload_preserves:
  assumes "\<And>s v. g (s\<lparr>idx := v\<rparr>) = g s" and "\<And>s v. g (s\<lparr>rng := v\<rparr>) = g s"
    and "\<And>s v. g (s\<lparr>style_rgbs := v\<rparr>) = g s"
    and "\<And>s b. g (s\<lparr>shown := shown s @ [(''Style Controls'', b)]\<rparr>) = g s"
  shows "g (state_of (auto_reload env args st)) = g st"
  by (simp add: auto_reload_def set_style_appends [where g=g] assms)

lemma recolor_style_state [simp]: "state_of (recolor_style st) = st"
  by (simp add: recolor_style_def)

lemma stylize_state [simp]: "state_of (stylize env args image_rgb st) = st"
  by (simp add: stylize_def and_then_of_result split: sum.split option.split)

lemma stitch_state [simp]: "state_of (stitch env args stylized_rgb st) = st"
  by (simp add: stitch_def and_then_of_result split: sum.split)

lemma show_frame_preserves:
  assumes "\<And>s v. g (s\<lparr>video_writer := v\<rparr>) = g s"
    and "\<And>s b. g (s\<lparr>shown := shown s @ [(''AdaIN Style'', b)]\<rparr>) = g s"
  shows "g (state_of (show_frame env args stylized_rgb st)) = g st"
  unfolding show_frame_def
  apply (intro and_then_preserves[where g=g])
    apply simp
   apply (cases "args_video_out args")
    apply (simp_all add: assms cv2_imshow_def)
  apply (intro and_then_preserves[where g=g])
     apply (simp_all add: assms)
  done

lemma handle_key_preserves:
  assumes "\<And>s v. g (s\<lparr>idx := v\<rparr>) = g s" and "\<And>s v. g (s\<lparr>rng := v\<rparr>) = g s"
    and "\<And>s v. g (s\<lparr>style_rgbs := v\<rparr>) = g s"
    and "\<And>s b. g (s\<lparr>shown := shown s @ [(''Style Controls'', b)]\<rparr>) = g s"
    and "\<And>s b. g (s\<lparr>shown := shown s @ [(''style2'', b)]\<rparr>) = g s"
    and "\<And>s v. g (s\<lparr>img_size := v\<rparr>) = g s" and "\<And>s v. g (s\<lparr>crop_size := v\<rparr>) = g s"
    and "\<And>s v. g (s\<lparr>scale := v\<rparr>) = g s" and "\<And>s v. g (s\<lparr>alpha := v\<rparr>) = g s"
    and "\<And>s v. g (s\<lparr>interp_weight := v\<rparr>) = g s"
    and "\<And>s v. g (s\<lparr>keep_colors := v\<rparr>) = g s"
  shows "g (state_of (handle_key env args evs k st)) = g st"
  unfolding handle_key_def
  apply (rule and_then_preserves[where g=g])
   apply (simp add: after_callbacks_preserves [where g=g] assms)
  apply (auto simp add: assms set_style_appends [where g=g] intro!: and_then_preserves[where g=g])
  done

lemma process_frame_preserves:
  assumes "\<And>s v. g (s\<lparr>idx := v\<rparr>) = g s" and "\<And>s v. g (s\<lparr>rng := v\<rparr>) = g s"
    and "\<And>s v. g (s\<lparr>style_rgbs := v\<rparr>) = g s"
    and "\<And>s w b. g (s\<lparr>shown := shown s @ [(w, b)]\<rparr>) = g s"
    and "\<And>s v. g (s\<lparr>img_size := v\<rparr>) = g s" and "\<And>s v. g (s\<lparr>crop_size := v\<rparr>) = g s"
    and "\<And>s v. g (s\<lparr>scale := v\<rparr>) = g s" and "\<And>s v. g (s\<lparr>alpha := v\<rparr>) = g s"
    and "\<And>s v. g (s\<lparr>interp_weight := v\<rparr>) = g s"
    and "\<And>s v. g (s\<lparr>keep_colors := v\<rparr>) = g s"
    and "\<And>s v. g (s\<lparr>count := v\<rparr>) = g s"
    and "\<And>s v. g (s\<lparr>video_writer := v\<rparr>) = g s"
  shows "g (state_of (process_frame env args t st)) = g st"
  unfolding process_frame_def
  by (intro and_then_preserves[where g=g])
     (simp_all add: content_image_preserves [where g=g] auto_reload_preserves [where g=g]
        show_frame_preserves [where g=g] handle_key_preserves [where g=g] assms)

lemma main_loop_preserves:
  assumes "\<And>s v. g (s\<lparr>idx := v\<rparr>) = g s" and "\<And>s v. g (s\<lparr>rng := v\<rparr>) = g s"
    and "\<And>s v. g (s\<lparr>style_rgbs := v\<rparr>) = g s"
    and "\<And>s w b. g (s\<lparr>shown := shown s @ [(w, b)]\<rparr>) = g s"
    and "\<And>s v. g (s\<lparr>img_size := v\<rparr>) = g s" and "\<And>s v. g (s\<lparr>crop_size := v\<rparr>) = g s"
    and "\<And>s v. g (s\<lparr>scale := v\<rparr>) = g s" and "\<And>s v. g (s\<lparr>alpha := v\<rparr>) = g s"
    and "\<And>s v. g (s\<lparr>interp_weight := v\<rparr>) = g s"
    and "\<And>s v. g (s\<lparr>keep_colors := v\<rparr>) = g s"
    and "\<And>s v. g (s\<lparr>count := v\<rparr>) = g s"
    and "\<And>s v. g (s\<lparr>video_writer := v\<rparr>) = g s"
  shows "g (state_of (main_loop env args ticks st)) = g st"
proof (induction ticks arbitrary: st)
  case Nil
  show ?case by simp
next
  case (Cons t ts)
  have step: "g (state_of (process_frame env args t st)) = g st"
    by (rule process_frame_preserves [where g=g]) (rule assms)+
  show ?case
    by (simp, rule and_then_preserves [where g=g], rule step) (simp add: Cons.IH)
qed

lemma bind_result_inv:
  assumes "P s" and "\<And>v. x = Inr v \<Longrightarrow> P (state_of (f v s))"
  shows "P (state_of (and_then (of_result x s) f))"
  using assms by (cases x) simp_all

lemma cv2_resize_dims:
  "cv2_resize env src d = Inr img \<Longrightarrow> (int (cols img), int (rows img)) = d"
  by (auto simp add: cv2_resize_def split: option.splits prod.splits if_splits)

lemma write_locked:
  assumes "video_locked d st" and "cv2_resize env src d = Inr img"
    and "video_writer st = Some vw"
  shows "video_locked d (st\<lparr>video_writer := Some (vw\<lparr>written := written vw @ [img]\<rparr>)\<rparr>)"
  using assms(1,3) cv2_resize_dims [OF assms(2)] by (simp add: video_locked_def)

lemma imshow_locked:
  "video_locked d st \<Longrightarrow> video_locked d (cv2_imshow w b st)"
  by (simp add: video_locked_def cv2_imshow_def)

lemma show_frame_locked:
  assumes "video_locked d st"
  shows "video_locked d (state_of (show_frame env args stylized_rgb st))"
  unfolding show_frame_def
  apply (rule bind_result_inv [where P="video_locked d"])
   apply (rule assms)
  apply (rule and_then_inv [where P="video_locked d"])
   apply (cases "args_video_out args")
    apply (simp add: assms)
   apply (simp only: option.case)
   apply (rule bind_result_inv [where P="video_locked d"], rule assms)
   apply (rule bind_result_inv [where P="video_locked d"], rule assms)
   apply (rule bind_result_inv [where P="video_locked d"], rule assms)
   apply (insert assms)
   apply (auto simp add: video_locked_def split: option.splits dest: cv2_resize_dims)[1]
  apply (simp add: imshow_locked)
  done

lemma video_locked_transfer:
  "video_locked d s \<Longrightarrow> out_shape s' = out_shape s \<Longrightarrow> video_writer s' = video_writer s
   \<Longrightarrow> video_locked d s'"
  by (simp add: video_locked_def)

lemma content_image_locked:
  "video_locked d st \<Longrightarrow> video_locked d (state_of (content_image env args f st))"
  by (erule video_locked_transfer)
     (simp_all add: content_image_preserves [where g=out_shape]
        content_image_preserves [where g=video_writer])

lemma auto_reload_locked:
  "video_locked d st \<Longrightarrow> video_locked d (state_of (auto_reload env args st))"
  by (erule video_locked_transfer)
     (simp_all add: auto_reload_preserves [where g=out_shape]
        auto_reload_preserves [where g=video_writer])

lemma handle_key_locked:
  "video_locked d st \<Longrightarrow> video_locked d (state_of (handle_key env args evs k st))"
  by (erule video_locked_transfer)
     (simp_all add: handle_key_preserves [where g=out_shape]
        handle_key_preserves [where g=video_writer])

lemma process_frame_locked:
  assumes "video_locked d st"
  shows "video_locked d (state_of (process_frame env args t st))"
  unfolding process_frame_def
  by (intro and_then_inv [where P="video_locked d"])
     (simp_all add: assms content_image_locked auto_reload_locked show_frame_locked
        handle_key_locked)

lemma main_loop_locked:
  "video_locked d st \<Longrightarrow> video_locked d (state_of (main_loop env args ticks st))"
proof (induction ticks arbitrary: st)
  case Nil
  then show ?case by simp
next
  case (Cons t ts)
  from process_frame_locked [OF Cons.prems]
  have step: "video_locked d (state_of (process_frame env args t st))" .
  show ?case
    by (simp, rule and_then_inv [where P="video_locked d"], rule step) (simp add: Cons.IH)
qed

lemma shutdown_locked: "video_locked d st \<Longrightarrow> video_locked d (shutdown args st)"
  by (auto simp add: video_locked_def shutdown_def Let_def split: option.splits)

lemma setup_video_locked:
  "args_video_out args = Some file \<Longrightarrow>
   video_locked (video_out_shape args first) (setup_video args first st)"
  by (simp add: video_locked_def setup_video_def Let_def)

lemma video_locked_locals:
  "video_locked d st \<Longrightarrow> video_locked d (st\<lparr>keep_colors := b\<rparr>)"
  "video_locked d st \<Longrightarrow> video_locked d (st\<lparr>count := n\<rparr>)"
  by (simp_all add: video_locked_def)

lemma init_single:
  assumes "get_files env p = Inr [f]"
  shows "list_all (\<lambda>tb. tb_name tb \<noteq> ''index'')
           (trackbars (state_of (StyleWindow_init env args p sz sc al interp (initial_state r0))))
    \<and> style_imgs (state_of (StyleWindow_init env args p sz sc al interp (initial_state r0))) = [f]"
  unfolding StyleWindow_init_def
  apply (simp add: assms Let_def cv2_createTrackbar_def cv2_namedWindow_def initial_state_def)
  apply (rule and_then_inv
      [where P="\<lambda>s. list_all (\<lambda>tb. tb_name tb \<noteq> ''index'') (trackbars s) \<and> style_imgs s = [f]"])
   apply (simp add: set_style_preserves [where g=trackbars] set_style_preserves [where g=style_imgs]
      cv2_createTrackbar_def cv2_namedWindow_def initial_state_def)
  apply (cases interp)
   apply (simp_all add: set_style_preserves [where g=trackbars]
      set_style_preserves [where g=style_imgs] cv2_createTrackbar_def cv2_namedWindow_def Let_def)
  done

lemma set_style_random_single:
  assumes "length (style_imgs st) = 1"
  shows "idx (state_of (set_style env args i True k w st)) = Some 0"
  unfolding set_style_def np_random_randint_def using assms
  apply (simp split: prod.split option.split)
  apply (intro allI impI conjI and_then_preserves [where g=idx])
  apply (simp_all add: show_style_preserves)
  done

text \<open>The definitions a concrete run unfolds.\<close>

lemmas demo_defs = demo_env_def demo_args_def demo_frame_def demo_tick_def demo_state_def
lemmas model_defs = main_def StyleWindow_init_def set_style_def show_style_def np_random_randint_def
      initial_state_def cv2_namedWindow_def
      cv2_createTrackbar_def cv2_imshow_def cv2_resize_def cv2_cvtColor_def py_getitem_def
      py_setitem_def py_int_def process_frame_def content_image_def auto_reload_def recolor_style_def
      stylize_def stitch_def show_frame_def handle_key_def cv2_resize_fx_def cvRound_def
      setup_video_def shutdown_def video_out_shape_def np_hstack_def gaussian_filter_def

section \<open>An error of the network\<close>

text \<open>
  Claim C2, as amended. Take a frame that reaches the call of the network: the content
  image was computed, the periodic reload (if any) returned and colour preservation is
  off. If \<^verbatim>\<open>predict\<close> (one style) or \<^verbatim>\<open>predict_interpolate\<close> (two styles) raises
  \<open>e\<close> on it, the pass over that frame raises \<open>e\<close> and so does the loop, whatever
  frames follow: nothing catches the error and no later frame is processed. The frame
  itself is neither shown in the output window nor written to the video; the frames
  shown and written before it stay as they were.
\<close>

theorem inference_error_escapes:
  assumes "content_image env args (tick_frame t) st = Return image_rgb st1"
    and "auto_reload env args st1 = Return u st2"
    and "recolor_style st2 = Return u' st3"
    and "(\<not> args_interpolate args
          \<and> (\<exists>style. py_getitem (style_rgbs st3) 0 = Inr style
                \<and> predict env image_rgb style (alpha st3) = Inl e))
         \<or> (args_interpolate args
          \<and> (\<exists>w. interp_weight st3 = Some w
                \<and> predict_interpolate env image_rgb (style_rgbs st3) [w, 1 - w] (alpha st3)
                    = Inl e))"
  shows "process_frame env args t st = Raise e st3
    \<and> main_loop env args (t # ts) st = Raise e st3
    \<and> filter (\<lambda>x. fst x = ''AdaIN Style'') (shown st3)
        = filter (\<lambda>x. fst x = ''AdaIN Style'') (shown st)
    \<and> video_writer st3 = video_writer st"
proof -
  from assms(4) have "stylize env args image_rgb st3 = Raise e st3"
    by (auto simp add: stylize_def)
  with assms(1-3) have frame: "process_frame env args t st = Raise e st3"
    by (simp add: process_frame_def)
  from assms(3) have st3: "st3 = st2"
    by (simp add: recolor_style_def split: if_splits)
  let ?g = "\<lambda>s::('a, 'b) state. filter (\<lambda>x. fst x = ''AdaIN Style'') (shown s)"
  have "?g (state_of (content_image env args (tick_frame t) st)) = ?g st"
    by (rule content_image_preserves) simp_all
  moreover have "?g (state_of (auto_reload env args st1)) = ?g st1"
    by (rule auto_reload_preserves) simp_all
  ultimately have shown: "?g st3 = ?g st"
    by (simp add: assms(1,2) st3)
  have "video_writer (state_of (content_image env args (tick_frame t) st)) = video_writer st"
    by (rule content_image_preserves) simp_all
  moreover have "video_writer (state_of (auto_reload env args st1)) = video_writer st1"
    by (rule auto_reload_preserves) simp_all
  ultimately have vw: "video_writer st3 = video_writer st"
    by (simp add: assms(1,2) st3)
  from frame shown vw show ?thesis by simp
qed

text \<open>The theorem at work: the frame named \<open>bad\<close> comes first, a good one after it.\<close>

theorem inference_error_escapes_witness:
  "content_image demo_env demo_args (tick_frame (demo_tick ''bad'')) demo_state
     = Return (demo_frame ''bad'') (demo_state\<lparr>count := 1\<rparr>)
   \<and> auto_reload demo_env demo_args (demo_state\<lparr>count := 1\<rparr>) = Return () (demo_state\<lparr>count := 1\<rparr>)
   \<and> recolor_style (demo_state\<lparr>count := 1\<rparr>) = Return () (demo_state\<lparr>count := 1\<rparr>)
   \<and> predict demo_env (demo_frame ''bad'') (Some \<lparr>rows = 256, cols = 256, pixels = ''a.jpg''\<rparr>) 1
       = Inl InferenceError
   \<and> main_loop demo_env demo_args [demo_tick ''bad'', demo_tick ''f2''] demo_state
       = Raise InferenceError (demo_state\<lparr>count := 1\<rparr>)"
proof -
  have a: "content_image demo_env demo_args (tick_frame (demo_tick ''bad'')) demo_state
     = Return (demo_frame ''bad'') (demo_state\<lparr>count := 1\<rparr>)"
    by (simp add: demo_defs model_defs)
  have b: "auto_reload demo_env demo_args (demo_state\<lparr>count := 1\<rparr>)
     = Return () (demo_state\<lparr>count := 1\<rparr>)"
    by (simp add: demo_defs model_defs)
  have c: "recolor_style (demo_state\<lparr>count := 1\<rparr>) = Return () (demo_state\<lparr>count := 1\<rparr>)"
    by (simp add: demo_defs model_defs)
  have p: "predict demo_env (demo_frame ''bad'') (Some \<lparr>rows = 256, cols = 256, pixels = ''a.jpg''\<rparr>) 1
       = Inl InferenceError"
    by (simp add: demo_defs)
  have d: "(\<not> args_interpolate demo_args
          \<and> (\<exists>style. py_getitem (style_rgbs (demo_state\<lparr>count := 1\<rparr>)) 0 = Inr style
                \<and> predict demo_env (demo_frame ''bad'') style (alpha (demo_state\<lparr>count := 1\<rparr>))
                    = Inl InferenceError))
         \<or> (args_interpolate demo_args
          \<and> (\<exists>w. interp_weight (demo_state\<lparr>count := 1\<rparr>) = Some w
                \<and> predict_interpolate demo_env (demo_frame ''bad'')
                     (style_rgbs (demo_state\<lparr>count := 1\<rparr>)) [w, 1 - w]
                     (alpha (demo_state\<lparr>count := 1\<rparr>)) = Inl InferenceError))"
    by (simp add: demo_defs py_getitem_def)
  from inference_error_escapes [OF a b c d, of "[demo_tick ''f2'']"] a b c p
  show ?thesis by simp
qed

text \<open>
  Claim C2 as stated fails. Ten frames follow the sample frame and the network raises
  on the third: \<^verbatim>\<open>main\<close> ends with that exception, and the output window has received
  two frames, not nine.
\<close>

theorem ten_frames_one_bad:
  "raised (main demo_env demo_args (Some (demo_frame ''sample'')) ten_ticks 0)
     = Some InferenceError
   \<and> map (\<lambda>x. pixels (snd x))
       (filter (\<lambda>x. fst x = ''AdaIN Style'')
          (shown (state_of (main demo_env demo_args (Some (demo_frame ''sample'')) ten_ticks 0))))
     = [''f1'', ''f2'']"
  by (simp add: demo_defs model_defs ten_ticks_def)

section \<open>Colour preservation\<close>

text \<open>
  Claim C3 does not hold of the code. With \<^verbatim>\<open>--keep-colors\<close> the first pass of the
  loop reads \<^verbatim>\<open>style_window.style_rgb\<close>, which does not exist, and \<^verbatim>\<open>main\<close> ends
  with \<^verbatim>\<open>AttributeError\<close> before any frame reaches the network or the output
  window.
\<close>

theorem keep_colors_raises:
  "raised (main demo_env (demo_args\<lparr>args_keep_colors := True\<rparr>) (Some (demo_frame ''sample''))
             [demo_tick ''f1'', demo_tick ''f2''] 0)
     = Some AttributeError
   \<and> filter (\<lambda>x. fst x = ''AdaIN Style'')
       (shown (state_of (main demo_env (demo_args\<lparr>args_keep_colors := True\<rparr>)
                           (Some (demo_frame ''sample'')) [demo_tick ''f1'', demo_tick ''f2''] 0)))
     = []"
  by (simp add: demo_defs model_defs)

section \<open>The size of the video\<close>

text \<open>
  Claim C4. Let video output be on, the style window be built and the sample frame be
  scaled by \<^verbatim>\<open>args.scale\<close> to \<open>first\<close>. Then, whatever frames, trackbar changes (the
  content scale among them) and keys follow, and whether the run ends normally or with
  an exception: the writer exists, its frame size is \<^verbatim>\<open>out_shape\<close>, which is the
  width and height of \<open>first\<close>, wider by the height with \<^verbatim>\<open>--concat\<close>, and every
  frame written has exactly that width and height.
\<close>

theorem video_frames_locked:
  assumes "args_video_out args = Some file"
    and "returns (StyleWindow_init env args (args_style_path args) (args_style_size args)
           (args_scale args) (args_alpha args) (args_interpolate args) (initial_state r0))"
    and "cv2_resize_fx env sample (args_scale args) (args_scale args) = Inr first"
  shows "\<exists>vw. video_writer (state_of (main env args sample ticks r0)) = Some vw
    \<and> out_shape (state_of (main env args sample ticks r0)) = Some (frame_size vw)
    \<and> frame_size vw =
        (if args_concat args then (int (cols first) + int (rows first), int (rows first))
         else (int (cols first), int (rows first)))
    \<and> list_all (\<lambda>img. (int (cols img), int (rows img)) = frame_size vw) (written vw)"
proof -
  let ?d = "video_out_shape args first"
  from assms(2) obtain u st0 where init:
    "StyleWindow_init env args (args_style_path args) (args_style_size args)
       (args_scale args) (args_alpha args) (args_interpolate args) (initial_state r0)
     = Return u st0"
    by (cases "StyleWindow_init env args (args_style_path args) (args_style_size args)
       (args_scale args) (args_alpha args) (args_interpolate args) (initial_state r0)") simp_all
  let ?st1 = "setup_video args first st0\<lparr>keep_colors := args_keep_colors args\<rparr>\<lparr>count := 0\<rparr>"
  have start: "video_locked ?d ?st1"
    by (intro video_locked_locals setup_video_locked [OF assms(1)])
  have run: "main env args sample ticks r0 =
      and_then (main_loop env args ticks ?st1) (\<lambda>_ st. Return () (shutdown args st))"
    by (simp add: main_def init assms(3))
  have "video_locked ?d (state_of (main env args sample ticks r0))"
    unfolding run
    by (rule and_then_inv [where P="video_locked ?d"])
       (simp_all add: main_loop_locked [OF start] shutdown_locked)
  then show ?thesis
    by (auto simp add: video_locked_def video_out_shape_def split: option.splits)
qed

text \<open>
  The theorem at work, with \<^verbatim>\<open>--concat\<close>: before the second frame is shown the scale
  trackbar goes to 50 and \<open>r\<close> is pressed, so the third frame is stylised at half the
  size; it is written at \<open>1120 \<times> 480\<close> like the others.
\<close>

theorem video_frames_locked_witness:
  "args_video_out (demo_args\<lparr>args_video_out := Some ''out.avi'', args_concat := True\<rparr>)
     = Some ''out.avi''
   \<and> returns (StyleWindow_init demo_env
                (demo_args\<lparr>args_video_out := Some ''out.avi'', args_concat := True\<rparr>)
                ''styles'' 512 1 1 False (initial_state 0))
   \<and> cv2_resize_fx demo_env (Some (demo_frame ''sample'')) 1 1 = Inr (demo_frame ''sample'')
   \<and> map_option (\<lambda>vw. (frame_size vw, map (\<lambda>img. (cols img, rows img)) (written vw)))
       (video_writer (state_of (main demo_env
          (demo_args\<lparr>args_video_out := Some ''out.avi'', args_concat := True\<rparr>)
          (Some (demo_frame ''sample''))
          [demo_tick ''f1'',
           \<lparr>tick_frame = demo_frame ''f2'', tick_events = [(On_set_scale, 50)], tick_key = 114\<rparr>,
           demo_tick ''f3''] 0)))
     = Some ((1120, 480), [(1120, 480), (1120, 480), (1120, 480)])"
proof -
  let ?args = "demo_args\<lparr>args_video_out := Some ''out.avi'', args_concat := True\<rparr>"
  have a: "args_video_out ?args = Some ''out.avi''" by simp
  have b: "returns (StyleWindow_init demo_env ?args (args_style_path ?args)
      (args_style_size ?args) (args_scale ?args) (args_alpha ?args) (args_interpolate ?args)
      (initial_state 0))"
    by (simp add: demo_defs model_defs)
  have c: "cv2_resize_fx demo_env (Some (demo_frame ''sample'')) (args_scale ?args)
      (args_scale ?args) = Inr (demo_frame ''sample'')"
    by (simp add: demo_defs model_defs)
  have v: "map_option (\<lambda>vw. (frame_size vw, map (\<lambda>img. (cols img, rows img)) (written vw)))
       (video_writer (state_of (main demo_env ?args (Some (demo_frame ''sample''))
          [demo_tick ''f1'',
           \<lparr>tick_frame = demo_frame ''f2'', tick_events = [(On_set_scale, 50)], tick_key = 114\<rparr>,
           demo_tick ''f3''] 0)))
     = Some ((1120, 480), [(1120, 480), (1120, 480), (1120, 480)])"
    by (simp add: demo_defs model_defs set_scale_def Let_def)
  from video_frames_locked [OF a b c] a b c v
  show ?thesis by (simp add: demo_args_def)
qed

section \<open>The interpolation weight\<close>

text \<open>
  Claim C5. \<^verbatim>\<open>set_interp(v)\<close> stores \<open>v / 100\<close>. With \<^verbatim>\<open>--interpolate\<close> the call of the
  network is \<^verbatim>\<open>predict_interpolate\<close> on the content image, the whole list
  \<^verbatim>\<open>style_rgbs\<close> (slot 0 and slot 1), the weights \<open>[w, 1 - w]\<close> for the stored weight
  \<open>w\<close>, and the current alpha; right after \<^verbatim>\<open>set_interp(v)\<close> the weights are
  \<open>[v / 100, 1 - v / 100]\<close>.
\<close>

theorem interp_weights_passed:
  assumes "args_interpolate args"
  shows "interp_weight (state_of (set_interp v st)) = Some (of_int v / 100)
    \<and> stylize env args image_rgb (state_of (set_interp v st)) =
        of_result
          (predict_interpolate env image_rgb (style_rgbs st)
             [of_int v / 100, 1 - of_int v / 100] (alpha st))
          (state_of (set_interp v st))
    \<and> stylize env args image_rgb st =
        (case interp_weight st of
           None \<Rightarrow> Raise AttributeError st
         | Some w \<Rightarrow>
             of_result (predict_interpolate env image_rgb (style_rgbs st) [w, 1 - w] (alpha st)) st)"
  using assms by (simp add: set_interp_def stylize_def split: option.split)

theorem interp_weights_passed_witness:
  "args_interpolate (demo_args\<lparr>args_interpolate := True\<rparr>)
   \<and> interp_weight (state_of (set_interp 30 demo_state)) = Some (3 / 10)
   \<and> stylize demo_env (demo_args\<lparr>args_interpolate := True\<rparr>) (demo_frame ''f'')
        (state_of (set_interp 30 demo_state)) =
      of_result
        (predict_interpolate demo_env (demo_frame ''f'') (style_rgbs demo_state)
           [3 / 10, 7 / 10] (alpha demo_state))
        (state_of (set_interp 30 demo_state))"
proof -
  have on: "args_interpolate (demo_args\<lparr>args_interpolate := True\<rparr>)" by simp
  from interp_weights_passed [OF on, of 30 demo_state demo_env "demo_frame ''f''"] on
  show ?thesis by simp
qed

section \<open>A catalog of one style\<close>

text \<open>
  Claim C6. When \<^verbatim>\<open>get_files\<close> finds exactly one image, no trackbar named
  \<open>index\<close> exists at any point of the run (the state after any number of frames is a
  final state of \<^verbatim>\<open>main\<close>), the catalog stays that one image, and in a state whose
  catalog has one image every \<^verbatim>\<open>set_style(random=True)\<close> sets the index to 0,
  whatever the generator draws.
\<close>

theorem single_style_catalog:
  assumes "get_files env (args_style_path args) = Inr [f]" and "length (style_imgs st) = 1"
  shows "list_all (\<lambda>tb. tb_name tb \<noteq> ''index'')
           (trackbars (state_of (main env args sample ticks r0)))
    \<and> style_imgs (state_of (main env args sample ticks r0)) = [f]
    \<and> idx (state_of (set_style env' args' i True k w st)) = Some 0"
proof -
  let ?P = "\<lambda>s::('a, 'b) state.
     list_all (\<lambda>tb. tb_name tb \<noteq> ''index'') (trackbars s) \<and> style_imgs s = [f]"
  have "?P (state_of (main env args sample ticks r0))"
    unfolding main_def
    by (intro and_then_inv [where P="?P"])
       (simp_all add: init_single [OF assms(1)] setup_video_def Let_def shutdown_def
          main_loop_preserves [where g=trackbars] main_loop_preserves [where g=style_imgs]
          split: option.split)
  with set_style_random_single [OF assms(2)] show ?thesis by simp
qed

theorem single_style_catalog_witness:
  "get_files demo_env (args_style_path (demo_args\<lparr>args_style_path := ''single''\<rparr>)) = Inr [''a.jpg'']
   \<and> length (style_imgs (demo_state\<lparr>style_imgs := [''a.jpg'']\<rparr>)) = 1
   \<and> map tb_name (trackbars (state_of (main demo_env (demo_args\<lparr>args_style_path := ''single''\<rparr>)
         (Some (demo_frame ''sample'')) [demo_tick ''f1''] 0)))
      = [''alpha'', ''size'', ''crop size'', ''scale'']
   \<and> idx (state_of (set_style demo_env demo_args None True 0 ''Style Controls''
                       (demo_state\<lparr>style_imgs := [''a.jpg''], rng := 7\<rparr>))) = Some 0"
proof -
  let ?args = "demo_args\<lparr>args_style_path := ''single''\<rparr>"
  have a: "get_files demo_env (args_style_path ?args) = Inr [''a.jpg'']"
    by (simp add: demo_defs)
  have b: "length (style_imgs (demo_state\<lparr>style_imgs := [''a.jpg''], rng := 7\<rparr>)) = 1" by simp
  have v: "map tb_name (trackbars (state_of (main demo_env ?args
         (Some (demo_frame ''sample'')) [demo_tick ''f1''] 0)))
      = [''alpha'', ''size'', ''crop size'', ''scale'']"
    by (simp add: demo_defs model_defs)
  from single_style_catalog [OF a b, where sample="Some (demo_frame ''sample'')"
      and ticks="[demo_tick ''f1'']" and ?r0.0=0 and i=None and k=0 and w="''Style Controls''"
      and args'=demo_args and env'=demo_env] a v
  show ?thesis by simp
qed

section \<open>Noise instead of the camera\<close>

text \<open>
  Claim C9. With \<^verbatim>\<open>--noise\<close>, two camera frames of the same shape give the same
  content image, the same generator state and indeed the same pass of the loop, from the
  same state: the pixels of the camera frame do not matter. The content image is the
  noise drawn for the scaled frame's shape, blurred with sigma \<open>1 / 2\<close>.
\<close>

theorem noise_content_independent:
  assumes "args_noise args" and "rows f1 = rows f2" and "cols f1 = cols f2"
  shows "content_image env args f1 st = content_image env args f2 st
    \<and> process_frame env args (t\<lparr>tick_frame := f1\<rparr>) st
        = process_frame env args (t\<lparr>tick_frame := f2\<rparr>) st
    \<and> content_image env args f1 st =
        (case cv2_resize_fx env (Some f1) (scale st) (scale st) of
           Inl e \<Rightarrow> Raise e st
         | Inr frame_resize \<Rightarrow>
             (case noise_pixels env (rng st) (rows frame_resize) (cols frame_resize) of
                (px, r') \<Rightarrow>
                  of_result
                    (cv2_cvtColor env
                       (gaussian_filter env
                          \<lparr>rows = rows frame_resize, cols = cols frame_resize, pixels = px\<rparr>
                          (1 / 2)))
                    (st\<lparr>rng := r', count := count st + 1\<rparr>)))"
proof -
  have same: "content_image env args f1 st = content_image env args f2 st"
    using assms by (simp add: content_image_def cv2_resize_fx_def cv2_resize_def)
  have noise: "content_image env args f1 st =
        (case cv2_resize_fx env (Some f1) (scale st) (scale st) of
           Inl e \<Rightarrow> Raise e st
         | Inr frame_resize \<Rightarrow>
             (case noise_pixels env (rng st) (rows frame_resize) (cols frame_resize) of
                (px, r') \<Rightarrow>
                  of_result
                    (cv2_cvtColor env
                       (gaussian_filter env
                          \<lparr>rows = rows frame_resize, cols = cols frame_resize, pixels = px\<rparr>
                          (1 / 2)))
                    (st\<lparr>rng := r', count := count st + 1\<rparr>)))"
    using assms(1)
    by (simp add: content_image_def and_then_of_result split: sum.split prod.split)
  from same noise show ?thesis by (simp add: process_frame_def)
qed

theorem noise_content_independent_witness:
  "args_noise (demo_args\<lparr>args_noise := True\<rparr>)
   \<and> rows (demo_frame ''x'') = rows (demo_frame ''y'')
   \<and> cols (demo_frame ''x'') = cols (demo_frame ''y'')
   \<and> demo_frame ''x'' \<noteq> demo_frame ''y''
   \<and> content_image demo_env (demo_args\<lparr>args_noise := True\<rparr>) (demo_frame ''x'') demo_state
       = content_image demo_env (demo_args\<lparr>args_noise := True\<rparr>) (demo_frame ''y'') demo_state
   \<and> content_image demo_env (demo_args\<lparr>args_noise := True\<rparr>) (demo_frame ''x'') demo_state
       = Return \<lparr>rows = 480, cols = 640, pixels = ''noise''\<rparr> (demo_state\<lparr>rng := 2, count := 1\<rparr>)"
proof -
  have h: "args_noise (demo_args\<lparr>args_noise := True\<rparr>)"
    "rows (demo_frame ''x'') = rows (demo_frame ''y'')"
    "cols (demo_frame ''x'') = cols (demo_frame ''y'')"
    by (simp_all add: demo_frame_def)
  have v: "content_image demo_env (demo_args\<lparr>args_noise := True\<rparr>) (demo_frame ''y'') demo_state
       = Return \<lparr>rows = 480, cols = 640, pixels = ''noise''\<rparr> (demo_state\<lparr>rng := 2, count := 1\<rparr>)"
    by (simp add: demo_defs model_defs)
  from noise_content_independent [OF h, of demo_env demo_state] h v
  show ?thesis by (simp add: demo_frame_def)
qed

end
